theory Spec2Isabelle
  imports Main "HOL-Library.Sublist"
begin

section \<open>Python strings\<close>

text \<open>
  A Python \<open>str\<close> is a sequence of code points. The model takes the code points below 256
  (the Latin-1 block), one \<^typ>\<open>char\<close> each, so \<^typ>\<open>string\<close> is a \<open>str\<close> over
  that block and \<^term>\<open>length\<close> counts what \<open>len\<close> counts. The block is closed under
  every string operation the services use (\<open>lower\<close>, \<open>strip\<close>, \<open>split\<close>, \<open>re.sub\<close>,
  \<open>join\<close>, concatenation with ASCII literals). The character classes below are the
  tables of CPython for that block.
\<close>

definition ord :: "char \<Rightarrow> nat" where
  "ord c = of_char c"

text \<open>\<open>str.isspace\<close>, which is also the class \<open>\s\<close> of \<open>re\<close> on \<open>str\<close> patterns and the
  separator test of \<open>str.split()\<close> and \<open>str.strip()\<close>.\<close>

definition isspace :: "char \<Rightarrow> bool" where
  "isspace c = ((9 \<le> ord c \<and> ord c \<le> 13) \<or> (28 \<le> ord c \<and> ord c \<le> 32)
     \<or> ord c = 133 \<or> ord c = 160)"

text \<open>\<open>str.isdigit\<close>: the decimal digits and the superscript digits of Latin-1.\<close>

definition isdigit :: "char \<Rightarrow> bool" where
  "isdigit c = ((48 \<le> ord c \<and> ord c \<le> 57) \<or> ord c = 178 \<or> ord c = 179 \<or> ord c = 185)"

text \<open>\<open>str.split(sep)\<close> for a one-character separator: every occurrence of the separator
  ends a piece, empty pieces are kept, and the result is never empty.\<close>

fun split_on :: "char \<Rightarrow> string \<Rightarrow> string list" where
  "split_on sep [] = [[]]"
| "split_on sep (c # cs) =
     (if c = sep then [] # split_on sep cs
      else (let ls = split_on sep cs in (c # hd ls) # tl ls))"

text \<open>\<open>sep.join(ws)\<close>.\<close>

fun join :: "string \<Rightarrow> string list \<Rightarrow> string" where
  "join sep [] = []"
| "join sep [w] = w"
| "join sep (w # v # ws) = w @ sep @ join sep (v # ws)"

text \<open>\<open>str.strip()\<close>: whitespace removed at both ends.\<close>

definition lstrip :: "string \<Rightarrow> string" where
  "lstrip s = dropWhile isspace s"

definition rstrip :: "string \<Rightarrow> string" where
  "rstrip s = rev (dropWhile isspace (rev s))"

definition strip :: "string \<Rightarrow> string" where
  "strip s = rstrip (lstrip s)"

text \<open>\<open>str.split()\<close> with no separator: the maximal runs of non-whitespace characters,
  in order; no piece is empty.\<close>

function split_ws :: "string \<Rightarrow> string list" where
  "split_ws s =
     (let s' = dropWhile isspace s
      in if s' = [] then []
         else takeWhile (\<lambda>c. \<not> isspace c) s' # split_ws (dropWhile (\<lambda>c. \<not> isspace c) s'))"
  by pat_completeness auto
termination
proof (relation "measure length")
  show "wf (measure length)" by simp
next
  fix s s' :: string
  assume s': "s' = dropWhile isspace s" and ne: "s' \<noteq> []"
  from ne obtain c cs where c: "s' = c # cs" by (cases s') auto
  from c have "dropWhile isspace s = c # cs" unfolding s' .
  then have "\<not> isspace c" by (simp add: dropWhile_eq_Cons_conv)
  with c have "dropWhile (\<lambda>c. \<not> isspace c) s' = dropWhile (\<lambda>c. \<not> isspace c) cs" by simp
  moreover have "length (dropWhile (\<lambda>c. \<not> isspace c) cs) \<le> length cs"
    by (rule length_dropWhile_le)
  moreover have "length s' \<le> length s" unfolding s' by (rule length_dropWhile_le)
  ultimately show "(dropWhile (\<lambda>c. \<not> isspace c) s', s) \<in> measure length"
    using c by simp
qed

declare split_ws.simps [simp del]

text \<open>\<open>str.lower()\<close>: in Latin-1 the uppercase letters are \<open>A\<close> to \<open>Z\<close> and the code
  points 192 to 222 but the multiplication sign 215; each has its lowercase 32 above.\<close>

definition isupper :: "char \<Rightarrow> bool" where
  "isupper c = ((65 \<le> ord c \<and> ord c \<le> 90) \<or> (192 \<le> ord c \<and> ord c \<le> 222 \<and> ord c \<noteq> 215))"

definition lower_char :: "char \<Rightarrow> char" where
  "lower_char c = (if isupper c then char_of (ord c + 32) else c)"

definition lower :: "string \<Rightarrow> string" where
  "lower s = map lower_char s"

text \<open>The class \<open>\w\<close> of \<open>re\<close> on a \<open>str\<close> pattern: \<open>str.isalnum\<close> or the underscore
  (code point 95).\<close>

definition isalnum :: "char \<Rightarrow> bool" where
  "isalnum c = ((48 \<le> ord c \<and> ord c \<le> 57) \<or> (65 \<le> ord c \<and> ord c \<le> 90)
     \<or> (97 \<le> ord c \<and> ord c \<le> 122) \<or> ord c = 170 \<or> ord c = 178 \<or> ord c = 179
     \<or> ord c = 181 \<or> ord c = 185 \<or> ord c = 186 \<or> (188 \<le> ord c \<and> ord c \<le> 190)
     \<or> (192 \<le> ord c \<and> ord c \<le> 214) \<or> (216 \<le> ord c \<and> ord c \<le> 246)
     \<or> (248 \<le> ord c \<and> ord c \<le> 255))"

definition isword :: "char \<Rightarrow> bool" where
  "isword c = (isalnum c \<or> c = CHR ''_'')"

text \<open>\<open>sub in s\<close> on strings: \<open>sub\<close> occurs in \<open>s\<close> as a contiguous piece.\<close>

fun contains :: "string \<Rightarrow> string \<Rightarrow> bool" where
  "contains sub [] = (sub = [])"
| "contains sub (c # cs) = (prefix sub (c # cs) \<or> contains sub cs)"

text \<open>\<open>re.sub(r'\s+', ' ', s)\<close>: every maximal run of whitespace becomes one space.\<close>

function sub_whitespace :: "string \<Rightarrow> string" where
  "sub_whitespace [] = []"
| "sub_whitespace (c # cs) =
     (if isspace c then CHR '' '' # sub_whitespace (dropWhile isspace cs)
      else c # sub_whitespace cs)"
  by pat_completeness auto
termination
  by (relation "measure length") (auto simp: length_dropWhile_le less_Suc_eq_le)

text \<open>\<open>re.sub(r'[^\w\s\-]', ' ', s)\<close>: every character that is not a word character,
  whitespace or the hyphen becomes a space.\<close>

definition sub_special :: "string \<Rightarrow> string" where
  "sub_special s =
     map (\<lambda>c. if isword c \<or> isspace c \<or> c = CHR ''-'' then c else CHR '' '') s"

section \<open>Query refiner\<close>

definition stop_words :: "string list" where
  "stop_words = [''a'', ''an'', ''the'', ''is'', ''are'', ''was'', ''were'', ''be'', ''been'',
     ''what'', ''how'', ''where'', ''when'', ''why'', ''which'']"

definition academic_keywords :: "string list" where
  "academic_keywords = [''research'', ''study'', ''paper'', ''analysis'', ''survey'']"

text \<open>
  \<^verbatim>\<open>
  has_academic_keyword = any(keyword in query for keyword in academic_keywords)
  if not has_academic_keyword and len(query.split()) < 8:
      query = f"{query} research"
  return query
  \<close>
\<close>

definition enhance_academic_context :: "string \<Rightarrow> string" where
  "enhance_academic_context query =
     (let has_academic_keyword = list_ex (\<lambda>keyword. contains keyword query) academic_keywords
      in if \<not> has_academic_keyword \<and> length (split_ws query) < 8
         then query @ '' research'' else query)"

text \<open>
  \<^verbatim>\<open>
  words = refined.split()
  if len(words) > 5:
      words = [w for w in words if w not in self.stop_words or len(w) > 3]
  \<close>
  The words of the query after the two substitutions, and the stop-word filter.
\<close>

definition query_words :: "string \<Rightarrow> string list" where
  "query_words query = split_ws (sub_special (sub_whitespace (strip (lower query))))"

definition remove_stop_words :: "string list \<Rightarrow> string list" where
  "remove_stop_words words =
     (if length words > 5
      then filter (\<lambda>w. w \<notin> set stop_words \<or> length w > 3) words
      else words)"

text \<open>
  \<open>QueryRefiner.refine\<close>. No operation of its \<open>try\<close> block raises on a \<open>str\<close>, so the
  handler that returns the original query is never entered and the model has no error
  branch.
\<close>

definition refine :: "string \<Rightarrow> string" where
  "refine query =
     enhance_academic_context (join '' '' (remove_stop_words (query_words query)))"

section \<open>Errors\<close>

text \<open>
  The exceptions the services raise, as values. \<open>BackendError\<close> is any exception the
  backend client raises during a call (timeout, authentication, rate limit, malformed
  response), with its text.
\<close>

datatype error =
    RuntimeError string
  | ValueError string
  | TypeError string
  | KeyError string
  | BackendError string

section \<open>Prompt templates\<close>

definition get_summary_prompt :: "string \<Rightarrow> string \<Rightarrow> string" where
  "get_summary_prompt query papers_text =
     ''\<newline>''
     @ ''You are a research assistant helping to summarize academic papers.\<newline>''
     @ ''\<newline>''
     @ ''User's Research Query: '' @ query @ ''\<newline>''
     @ ''\<newline>''
     @ ''Research Papers:\<newline>''
     @ papers_text @ ''\<newline>''
     @ ''\<newline>''
     @ ''Task: Provide a comprehensive summary of these research papers ''
     @ ''in the context of the user's query.\<newline>''
     @ ''Focus on:\<newline>''
     @ ''1. Main findings and contributions\<newline>''
     @ ''2. Methodologies used\<newline>''
     @ ''3. Key results and conclusions\<newline>''
     @ ''4. Relevance to the user's query\<newline>''
     @ ''\<newline>''
     @ ''Keep the summary concise but informative (300-500 words).\<newline>''"

definition get_gaps_prompt :: "string \<Rightarrow> string \<Rightarrow> string" where
  "get_gaps_prompt query papers_text =
     ''\<newline>''
     @ ''You are a research analyst identifying gaps in current research.\<newline>''
     @ ''\<newline>''
     @ ''User's Research Query: '' @ query @ ''\<newline>''
     @ ''\<newline>''
     @ ''Research Papers:\<newline>''
     @ papers_text @ ''\<newline>''
     @ ''\<newline>''
     @ ''Task: Identify and list the research gaps based on these papers.\<newline>''
     @ ''Consider:\<newline>''
     @ ''1. Areas not adequately addressed\<newline>''
     @ ''2. Limitations mentioned by authors\<newline>''
     @ ''3. Future research directions suggested\<newline>''
     @ ''4. Missing perspectives or methodologies\<newline>''
     @ ''5. Contradictions or inconsistencies in findings\<newline>''
     @ ''\<newline>''
     @ ''Provide 5-7 specific research gaps as a numbered list.\<newline>''
     @ ''Each gap should be clear, specific, and actionable.\<newline>''"

text \<open>The dictionary \<open>level_descriptions\<close> and the lookup
  \<open>level_descriptions.get(education_level, "an undergraduate student")\<close>.\<close>

definition level_descriptions :: "(string \<times> string) list" where
  "level_descriptions =
     [(''high_school'', ''a high school student with basic knowledge''),
      (''undergraduate'', ''an undergraduate student with foundational knowledge''),
      (''graduate'', ''a graduate student with advanced knowledge''),
      (''phd'', ''a PhD researcher with expert-level knowledge''),
      (''general'', ''a general audience with no specialized knowledge'')]"

definition audience_of :: "string \<Rightarrow> string" where
  "audience_of education_level =
     (case map_of level_descriptions education_level of
        Some description \<Rightarrow> description
      | None \<Rightarrow> ''an undergraduate student'')"

text \<open>The template of \<open>get_simplified_explanation_prompt\<close> around the audience phrase.\<close>

definition explanation_template :: "string \<Rightarrow> string \<Rightarrow> string \<Rightarrow> string" where
  "explanation_template query summary audience =
     ''\<newline>''
     @ ''You are an educator explaining research concepts.\<newline>''
     @ ''\<newline>''
     @ ''User's Research Query: '' @ query @ ''\<newline>''
     @ ''\<newline>''
     @ ''Research Summary:\<newline>''
     @ summary @ ''\<newline>''
     @ ''\<newline>''
     @ ''Target Audience: '' @ audience @ ''\<newline>''
     @ ''\<newline>''
     @ ''Task: Explain the research findings in a way that '' @ audience
     @ '' can understand.\<newline>''
     @ ''\<newline>''
     @ ''Guidelines:\<newline>''
     @ ''1. Use appropriate language complexity for the education level\<newline>''
     @ ''2. Include relevant examples or analogies\<newline>''
     @ ''3. Avoid jargon unless it's appropriate for the level (then define it)\<newline>''
     @ ''4. Focus on practical implications and real-world applications\<newline>''
     @ ''5. Keep it engaging and accessible\<newline>''
     @ ''\<newline>''
     @ ''Provide a clear, educational explanation (200-300 words).\<newline>''"

definition get_simplified_explanation_prompt :: "string \<Rightarrow> string \<Rightarrow> string \<Rightarrow> string" where
  "get_simplified_explanation_prompt query summary education_level =
     (let audience = audience_of education_level
      in explanation_template query summary audience)"

section \<open>Papers and their rendering\<close>

text \<open>
  The request model \<open>Paper\<close>: \<open>authors\<close>, \<open>year\<close> and \<open>url\<close> are \<open>Optional\<close>, so each
  may be \<open>None\<close>.
\<close>

record paper =
  title :: string
  abstract :: string
  authors :: "string list option"
  year :: "int option"
  url :: "string option"

text \<open>
  \<open>_format_papers\<close> reads four keys of a dictionary with \<open>get\<close>. For each key the entry
  is \<open>None\<close> when the key is absent and \<open>Some v\<close> when it is present with value \<open>v\<close>;
  the values have the types of the fields of \<open>Paper\<close>, so for \<open>authors\<close> and \<open>year\<close> a
  present value may itself be \<open>None\<close>.
\<close>

record paper_dict =
  title_entry :: "string option"
  abstract_entry :: "string option"
  authors_entry :: "string list option option"
  year_entry :: "int option option"

text \<open>\<open>paper.dict()\<close>: every field of the model is a key of the dictionary, also a field
  whose value is \<open>None\<close>.\<close>

definition dict_of_paper :: "paper \<Rightarrow> paper_dict" where
  "dict_of_paper p =
     \<lparr>title_entry = Some (title p), abstract_entry = Some (abstract p),
      authors_entry = Some (authors p), year_entry = Some (year p)\<rparr>"

text \<open>An element of the list given to \<open>_format_papers\<close>: a model (it has \<open>dict\<close>) or a
  plain dictionary.\<close>

datatype paper_arg = Model paper | Plain paper_dict

definition as_dict :: "paper_arg \<Rightarrow> paper_dict" where
  "as_dict a = (case a of Model p \<Rightarrow> dict_of_paper p | Plain d \<Rightarrow> d)"

text \<open>\<open>str\<close> of an \<open>int\<close>, as an f-string renders it.\<close>

definition digit_char :: "nat \<Rightarrow> char" where
  "digit_char d = char_of (48 + d)"

function str_nat :: "nat \<Rightarrow> string" where
  "str_nat n = (if n < 10 then [digit_char n] else str_nat (n div 10) @ [digit_char (n mod 10)])"
  by pat_completeness auto
termination
  by (relation "measure id") auto

declare str_nat.simps [simp del]

definition str_int :: "int \<Rightarrow> string" where
  "str_int i = (if i < 0 then CHR ''-'' # str_nat (nat (- i)) else str_nat (nat i))"

text \<open>
  \<^verbatim>\<open>
  f"Paper {i}:\n"
  f"Title: {paper_dict.get('title', 'N/A')}\n"
  f"Abstract: {paper_dict.get('abstract', 'N/A')}\n"
  f"Authors: {', '.join(paper_dict.get('authors', []))}\n"
  f"Year: {paper_dict.get('year', 'N/A')}\n"
  \<close>
  \<open>get\<close> gives its default only for an absent key. \<open>', '.join(None)\<close> raises
  \<open>TypeError\<close>; \<open>None\<close> in an f-string is the text \<open>None\<close>.
\<close>

definition title_text :: "paper_dict \<Rightarrow> string" where
  "title_text d = (case title_entry d of None \<Rightarrow> ''N/A'' | Some t \<Rightarrow> t)"

definition abstract_text :: "paper_dict \<Rightarrow> string" where
  "abstract_text d = (case abstract_entry d of None \<Rightarrow> ''N/A'' | Some a \<Rightarrow> a)"

definition authors_text :: "paper_dict \<Rightarrow> error + string" where
  "authors_text d =
     (case authors_entry d of
        None \<Rightarrow> Inr (join '', '' [])
      | Some None \<Rightarrow> Inl (TypeError ''can only join an iterable'')
      | Some (Some names) \<Rightarrow> Inr (join '', '' names))"

definition year_text :: "paper_dict \<Rightarrow> string" where
  "year_text d =
     (case year_entry d of
        None \<Rightarrow> ''N/A''
      | Some None \<Rightarrow> ''None''
      | Some (Some y) \<Rightarrow> str_int y)"

definition format_entry :: "nat \<Rightarrow> paper_dict \<Rightarrow> error + string" where
  "format_entry i d =
     (case authors_text d of
        Inl e \<Rightarrow> Inl e
      | Inr joined \<Rightarrow>
          Inr (''Paper '' @ str_nat i @ '':\<newline>''
               @ ''Title: '' @ title_text d @ ''\<newline>''
               @ ''Abstract: '' @ abstract_text d @ ''\<newline>''
               @ ''Authors: '' @ joined @ ''\<newline>''
               @ ''Year: '' @ year_text d @ ''\<newline>''))"

text \<open>The loop \<open>for i, paper in enumerate(papers, 1)\<close>: the first exception ends it.\<close>

fun format_entries :: "nat \<Rightarrow> paper_arg list \<Rightarrow> error + string list" where
  "format_entries i [] = Inr []"
| "format_entries i (p # ps) =
     (case format_entry i (as_dict p) of
        Inl e \<Rightarrow> Inl e
      | Inr entry \<Rightarrow>
          (case format_entries (Suc i) ps of
             Inl e \<Rightarrow> Inl e
           | Inr formatted \<Rightarrow> Inr (entry # formatted)))"

definition format_papers :: "paper_arg list \<Rightarrow> error + string" where
  "format_papers papers =
     (case format_entries 1 papers of
        Inl e \<Rightarrow> Inl e
      | Inr formatted \<Rightarrow> Inr (join ''\<newline>\<newline>'' formatted))"

section \<open>Model gateway\<close>

text \<open>
  A backend client takes a prompt and answers with a text or raises; what it answers may
  depend on the state of the world outside and change it, so a call takes that state
  and returns the new one. The credential and the model name only reach the backend
  through the client and are part of it here.
\<close>

type_synonym 'w client = "string \<Rightarrow> 'w \<Rightarrow> (error + string) \<times> 'w"

record 'w llm_processor =
  provider :: string
  client :: "'w client option"

text \<open>
  \<open>LLMProcessor.__init__\<close>: \<open>connect\<close> is the attempt to build the client of a
  provider, \<open>None\<close> when the package is missing or the set-up fails. For any other
  provider tag no client is built.
\<close>

definition init_processor :: "string \<Rightarrow> (string \<Rightarrow> 'w client option) \<Rightarrow> 'w llm_processor" where
  "init_processor tag connect =
     \<lparr>provider = tag,
      client = (if tag = ''gemini'' then connect ''gemini''
                else if tag = ''openai'' then connect ''openai''
                else None)\<rparr>"

definition call_gemini :: "'w llm_processor \<Rightarrow> string \<Rightarrow> 'w \<Rightarrow> (error + string) \<times> 'w" where
  "call_gemini self prompt w =
     (case client self of
        None \<Rightarrow> (Inl (RuntimeError ''Gemini client not initialized''), w)
      | Some generate \<Rightarrow> generate prompt w)"

definition call_openai :: "'w llm_processor \<Rightarrow> string \<Rightarrow> 'w \<Rightarrow> (error + string) \<times> 'w" where
  "call_openai self prompt w =
     (case client self of
        None \<Rightarrow> (Inl (RuntimeError ''OpenAI client not initialized''), w)
      | Some generate \<Rightarrow> generate prompt w)"

text \<open>\<open>_call_llm\<close>: its handler logs the exception and raises it again.\<close>

definition call_llm :: "'w llm_processor \<Rightarrow> string \<Rightarrow> 'w \<Rightarrow> (error + string) \<times> 'w" where
  "call_llm self prompt w =
     (if provider self = ''gemini'' then call_gemini self prompt w
      else if provider self = ''openai'' then call_openai self prompt w
      else (Inl (ValueError (''Unsupported LLM provider: '' @ provider self)), w))"

section \<open>Response extractor\<close>

text \<open>
  \<^verbatim>\<open>
  gaps = [gap.strip() for gap in response.split('\n')
          if gap.strip() and gap.strip()[0].isdigit()]
  return gaps if gaps else [response]
  \<close>
  The part of \<open>_extract_research_gaps\<close> after the gateway call. The test \<open>gap.strip()\<close>
  guards the index \<open>[0]\<close>, so no \<open>IndexError\<close> is possible.
\<close>

definition newline :: char where
  "newline = CHR 0x0A"

definition gap_line :: "string \<Rightarrow> bool" where
  "gap_line gap = (strip gap \<noteq> [] \<and> isdigit (hd (strip gap)))"

definition parse_gaps :: "string \<Rightarrow> string list" where
  "parse_gaps response =
     (let gaps = map strip (filter gap_line (split_on newline response))
      in if gaps \<noteq> [] then gaps else [response])"

subsection \<open>The extractor as the specification words it\<close>

text \<open>A line is digit-led when its trimmed form has a first character and that character
  is a digit.\<close>

definition digit_led :: "string \<Rightarrow> bool" where
  "digit_led l = (\<exists>c cs. strip l = c # cs \<and> isdigit c)"

section \<open>Analysis orchestrator\<close>

text \<open>Values of a dictionary \<open>Dict[str, Any]\<close>; a dictionary is the list of its items,
  in insertion order, with distinct keys.\<close>

datatype pyval =
    PyNone
  | PyInt int
  | PyStr string
  | PyList "pyval list"
  | PyDict "(string \<times> pyval) list"

type_synonym pydict = "(string \<times> pyval) list"

definition generate_summary ::
    "'w llm_processor \<Rightarrow> string \<Rightarrow> string \<Rightarrow> 'w \<Rightarrow> (error + string) \<times> 'w" where
  "generate_summary self query papers_text w =
     call_llm self (get_summary_prompt query papers_text) w"

definition extract_research_gaps ::
    "'w llm_processor \<Rightarrow> string \<Rightarrow> string \<Rightarrow> 'w \<Rightarrow> (error + string list) \<times> 'w" where
  "extract_research_gaps self query papers_text w =
     (case call_llm self (get_gaps_prompt query papers_text) w of
        (Inl e, w') \<Rightarrow> (Inl e, w')
      | (Inr response, w') \<Rightarrow> (Inr (parse_gaps response), w'))"

definition generate_simplified_explanation ::
    "'w llm_processor \<Rightarrow> string \<Rightarrow> string \<Rightarrow> string \<Rightarrow> 'w \<Rightarrow> (error + string) \<times> 'w" where
  "generate_simplified_explanation self query summary education_level w =
     call_llm self (get_simplified_explanation_prompt query summary education_level) w"

text \<open>The dictionary \<open>analyze_papers\<close> returns.\<close>

definition analysis_record :: "string \<Rightarrow> string list \<Rightarrow> string \<Rightarrow> string \<Rightarrow> pydict" where
  "analysis_record summary research_gaps simplified_explanation education_level =
     [(''summary'', PyStr summary),
      (''research_gaps'', PyList (map PyStr research_gaps)),
      (''simplified_explanation'', PyStr simplified_explanation),
      (''education_level'', PyStr education_level)]"

text \<open>
  \<open>analyze_papers\<close>: the three calls in the order of the source, each on the state the
  one before left. Its handler logs the exception and raises it again, so a failure is
  the failure of the step that raised.
\<close>

definition analyze_papers ::
    "'w llm_processor \<Rightarrow> string \<Rightarrow> paper_arg list \<Rightarrow> string \<Rightarrow> 'w \<Rightarrow> (error + pydict) \<times> 'w" where
  "analyze_papers self query papers education_level w =
     (case format_papers papers of
        Inl e \<Rightarrow> (Inl e, w)
      | Inr papers_text \<Rightarrow>
          (case generate_summary self query papers_text w of
             (Inl e, w1) \<Rightarrow> (Inl e, w1)
           | (Inr summary, w1) \<Rightarrow>
               (case extract_research_gaps self query papers_text w1 of
                  (Inl e, w2) \<Rightarrow> (Inl e, w2)
                | (Inr research_gaps, w2) \<Rightarrow>
                    (case generate_simplified_explanation self query summary education_level w2 of
                       (Inl e, w3) \<Rightarrow> (Inl e, w3)
                     | (Inr simplified_explanation, w3) \<Rightarrow>
                         (Inr (analysis_record summary research_gaps simplified_explanation
                                 education_level), w3)))))"

section \<open>Output formatter\<close>

text \<open>\<open>d.get(key, default)\<close> and \<open>key in d\<close>.\<close>

definition dict_get :: "pydict \<Rightarrow> string \<Rightarrow> pyval \<Rightarrow> pyval" where
  "dict_get d key default_value = (case map_of d key of None \<Rightarrow> default_value | Some v \<Rightarrow> v)"

definition has_key :: "pydict \<Rightarrow> string \<Rightarrow> bool" where
  "has_key d key = (map_of d key \<noteq> None)"

definition required_fields :: "string list" where
  "required_fields = [''summary'', ''research_gaps'', ''simplified_explanation'']"

text \<open>The loop of \<open>_validate_output\<close> over the required fields: the first one that is
  not a key raises.\<close>

fun require_fields :: "string list \<Rightarrow> pydict \<Rightarrow> error + unit" where
  "require_fields [] output = Inr ()"
| "require_fields (field # rest) output =
     (if \<not> has_key output field then Inl (ValueError (''Missing required field: '' @ field))
      else require_fields rest output)"

definition is_list :: "pyval \<Rightarrow> bool" where
  "is_list v = (case v of PyList _ \<Rightarrow> True | _ \<Rightarrow> False)"

definition validate_output :: "pydict \<Rightarrow> error + bool" where
  "validate_output output =
     (case require_fields required_fields output of
        Inl e \<Rightarrow> Inl e
      | Inr _ \<Rightarrow>
          (case map_of output ''research_gaps'' of
             None \<Rightarrow> Inl (KeyError ''research_gaps'')
           | Some v \<Rightarrow>
               if \<not> is_list v then Inl (ValueError ''research_gaps must be a list'')
               else Inr True))"

text \<open>
  \<open>format_analysis\<close>; \<open>now\<close> is the text of \<open>datetime.utcnow().isoformat()\<close>. The
  handler logs the exception and raises it again.
\<close>

definition formatted_of :: "string \<Rightarrow> pydict \<Rightarrow> pydict" where
  "formatted_of now analysis_result =
     [(''summary'', dict_get analysis_result ''summary'' (PyStr [])),
      (''research_gaps'', dict_get analysis_result ''research_gaps'' (PyList [])),
      (''simplified_explanation'', dict_get analysis_result ''simplified_explanation'' (PyStr [])),
      (''education_level'',
         dict_get analysis_result ''education_level'' (PyStr ''undergraduate'')),
      (''metadata'', PyDict [(''processed_at'', PyStr now), (''version'', PyStr ''1.0.0'')])]"

definition format_analysis :: "string \<Rightarrow> pydict \<Rightarrow> error + pydict" where
  "format_analysis now analysis_result =
     (let formatted = formatted_of now analysis_result
      in case validate_output formatted of
           Inl e \<Rightarrow> Inl e
         | Inr _ \<Rightarrow> Inr formatted)"

section \<open>Backends for the examples\<close>

text \<open>A backend that counts its calls in the state and times out on call number \<open>k\<close>
  (counted from 0); every other call answers with a one-line numbered list.\<close>

definition failing_at :: "nat \<Rightarrow> nat client" where
  "failing_at k prompt n =
     (if n = k then (Inl (BackendError ''timeout''), Suc n) else (Inr ''1. gap'', Suc n))"

definition gemini_with :: "nat client \<Rightarrow> nat llm_processor" where
  "gemini_with generate = \<lparr>provider = ''gemini'', client = Some generate\<rparr>"

section \<open>Notions for the proofs\<close>

text \<open>None of these is a function of the source; the proofs about \<open>refine\<close> are stated
  with them. A word is what \<open>str.split()\<close> can return as a piece.\<close>

definition wordlike :: "string \<Rightarrow> bool" where
  "wordlike w = (w \<noteq> [] \<and> (\<forall>c \<in> set w. \<not> isspace c))"

text \<open>The characters of a word of a refined query: not uppercase, and a word character
  or the hyphen.\<close>

definition refined_char :: "char \<Rightarrow> bool" where
  "refined_char c = (\<not> isupper c \<and> \<not> isspace c \<and> (isword c \<or> c = CHR ''-''))"

definition refined_word :: "string \<Rightarrow> bool" where
  "refined_word w = (w \<noteq> [] \<and> (\<forall>c \<in> set w. refined_char c))"

text \<open>Two whitespace characters stand next to each other somewhere in the string.\<close>

fun consecutive_whitespace :: "string \<Rightarrow> bool" where
  "consecutive_whitespace (c # d # s) =
     ((isspace c \<and> isspace d) \<or> consecutive_whitespace (d # s))"
| "consecutive_whitespace s = False"

text \<open>The words of the result of \<open>refine\<close>: the words the filter kept, and the hint
  \<open>research\<close> when \<open>_enhance_academic_context\<close> appends it.\<close>

definition result_words :: "string \<Rightarrow> string list" where
  "result_words query =
     (let kept = remove_stop_words (query_words query)
      in if \<not> list_ex (\<lambda>keyword. contains keyword (join '' '' kept)) academic_keywords
            \<and> length kept < 8
         then kept @ [''research''] else kept)"

section \<open>Facts about the string operations\<close>

lemma split_on_nonempty: "split_on sep s \<noteq> []"
  by (induction s) (auto simp: Let_def)

lemma join_split_on: "join [sep] (split_on sep s) = s"
proof (induction s)
  case Nil
  show ?case by simp
next
  case (Cons c cs)
  obtain l ls where ls: "split_on sep cs = l # ls"
    using split_on_nonempty [of sep cs] by (cases "split_on sep cs") auto
  show ?case
  proof (cases "c = sep")
    case True
    with Cons ls show ?thesis by simp
  next
    case False
    with Cons ls show ?thesis by (cases ls) (auto simp: Let_def)
  qed
qed

lemma split_on_no_sep: "l \<in> set (split_on sep s) \<Longrightarrow> sep \<notin> set l"
proof (induction s arbitrary: l)
  case Nil
  then show ?case by simp
next
  case (Cons c cs)
  obtain k ks where ks: "split_on sep cs = k # ks"
    using split_on_nonempty [of sep cs] by (cases "split_on sep cs") auto
  show ?case
  proof (cases "c = sep")
    case True
    with Cons show ?thesis by auto
  next
    case False
    with Cons.prems ks have "l = c # k \<or> l \<in> set ks" by (auto simp: Let_def)
    with Cons.IH ks False show ?thesis by auto
  qed
qed

lemma lstrip_idem: "lstrip (lstrip s) = lstrip s"
  unfolding lstrip_def by (induction s) auto

lemma digit_led_iff: "digit_led l = gap_line l"
  unfolding digit_led_def gap_line_def by (cases "strip l") auto

lemma digit_led_eq: "digit_led = gap_line"
  by (rule ext) (rule digit_led_iff)

subsection \<open>Characters, words and joining\<close>

lemma ord_char_of: "n < 256 \<Longrightarrow> ord (char_of n) = n"
  by (simp add: ord_def)

lemma lower_char_not_upper: "\<not> isupper (lower_char c)"
proof (cases "isupper c")
  case True
  then have "ord c + 32 < 256" by (auto simp: isupper_def)
  then have "ord (char_of (ord c + 32)) = ord c + 32" by (rule ord_char_of)
  with True show ?thesis by (auto simp: lower_char_def isupper_def)
next
  case False
  then show ?thesis by (simp add: lower_char_def)
qed

lemma lower_fixed: "(\<forall>c \<in> set s. \<not> isupper c) \<Longrightarrow> lower s = s"
  by (induction s) (auto simp: lower_def lower_char_def)

lemma space_facts: "isspace CHR '' ''" "\<not> isupper CHR '' ''" "\<not> isword CHR '' ''"
  by (simp_all add: isspace_def isupper_def isword_def isalnum_def ord_def)

lemma split_ws_space: "isspace c \<Longrightarrow> split_ws (c # s) = split_ws s"
  by (simp add: split_ws.simps [of "c # s"] split_ws.simps [of s])

lemma split_ws_Nil: "split_ws [] = []"
  by (simp add: split_ws.simps)

lemma split_ws_word_append:
  assumes "w \<noteq> []" "\<forall>c \<in> set w. \<not> isspace c" "s = [] \<or> isspace (hd s)"
  shows "split_ws (w @ s) = w # split_ws s"
proof -
  from assms(1) obtain c cs where w: "w = c # cs" by (cases w) auto
  with assms(2) have c: "\<not> isspace c" by simp
  have d: "dropWhile isspace (w @ s) = w @ s" using w c by simp
  have t: "takeWhile (\<lambda>c. \<not> isspace c) (w @ s) = w"
    using assms(2,3) by (cases s) (auto simp: takeWhile_append2)
  have r: "dropWhile (\<lambda>c. \<not> isspace c) (w @ s) = s"
    using assms(2,3) by (cases s) (auto simp: dropWhile_append2)
  have "split_ws (w @ s) =
      (let s' = dropWhile isspace (w @ s)
       in if s' = [] then []
          else takeWhile (\<lambda>c. \<not> isspace c) s' # split_ws (dropWhile (\<lambda>c. \<not> isspace c) s'))"
    by (rule split_ws.simps)
  also have "\<dots> = w # split_ws s"
    unfolding Let_def d t r using assms(1) by simp
  finally show ?thesis .
qed

lemma set_dropWhile_subset: "set (dropWhile P xs) \<subseteq> set xs"
  by (rule subsetI) (erule set_dropWhileD)

lemma set_takeWhile_subset: "set (takeWhile P xs) \<subseteq> set xs"
  by (rule subsetI) (drule set_takeWhileD, erule conjunct1)

lemma split_ws_wordlike: "w \<in> set (split_ws s) \<Longrightarrow> wordlike w \<and> set w \<subseteq> set s"
proof (induction s arbitrary: w rule: split_ws.induct)
  case (1 s)
  define s' where "s' = dropWhile isspace s"
  define t where "t = takeWhile (\<lambda>c. \<not> isspace c) s'"
  define d where "d = dropWhile (\<lambda>c. \<not> isspace c) s'"
  have unfold: "split_ws s = (if s' = [] then [] else t # split_ws d)"
    unfolding s'_def t_def d_def by (subst split_ws.simps) (simp only: Let_def)
  have sub: "set s' \<subseteq> set s" unfolding s'_def by (rule set_dropWhile_subset)
  show ?case
  proof (cases "s' = []")
    case True
    with unfold "1.prems" show ?thesis by simp
  next
    case False
    with unfold "1.prems" have "w = t \<or> w \<in> set (split_ws d)" by simp
    then show ?thesis
    proof
      assume w: "w = t"
      from False obtain c cs where c: "s' = c # cs" by (cases s') auto
      then have "dropWhile isspace s = c # cs" by (simp add: s'_def)
      then have "\<not> isspace c" by (simp add: dropWhile_eq_Cons_conv)
      with c have "t \<noteq> []" by (simp add: t_def)
      moreover have "\<forall>c \<in> set t. \<not> isspace c"
        unfolding t_def using set_takeWhileD by fast
      moreover have "set t \<subseteq> set s'" unfolding t_def by (rule set_takeWhile_subset)
      ultimately show ?thesis using w sub unfolding wordlike_def by blast
    next
      assume "w \<in> set (split_ws d)"
      moreover have "s' = dropWhile isspace s" by (rule s'_def)
      moreover note False
      ultimately have "wordlike w \<and> set w \<subseteq> set d"
        unfolding d_def by (rule "1.IH" [rotated 2])
      moreover have "set d \<subseteq> set s'" unfolding d_def by (rule set_dropWhile_subset)
      ultimately show ?thesis using sub by blast
    qed
  qed
qed

lemma join_snoc: "ws \<noteq> [] \<Longrightarrow> join sep (ws @ [w]) = join sep ws @ sep @ w"
  by (induction sep ws rule: join.induct) auto

lemma join_Cons: "join sep (w # ws) = (if ws = [] then w else w @ sep @ join sep ws)"
  by (cases ws) auto

lemma split_ws_join:
  "\<forall>w \<in> set ws. wordlike w \<Longrightarrow> split_ws (join '' '' ws) = ws"
proof (induction ws)
  case Nil
  show ?case by (simp add: split_ws_Nil)
next
  case (Cons w ws)
  from Cons.prems have w: "w \<noteq> []" "\<forall>c \<in> set w. \<not> isspace c"
    by (simp_all add: wordlike_def)
  from Cons.prems have ws: "\<forall>w \<in> set ws. wordlike w" by simp
  show ?case
  proof (cases "ws = []")
    case True
    have "split_ws (w @ []) = w # split_ws []"
      by (rule split_ws_word_append [OF w]) simp
    with True show ?thesis by (simp add: split_ws_Nil)
  next
    case False
    then have j: "join '' '' (w # ws) = w @ CHR '' '' # join '' '' ws"
      by (cases ws) simp_all
    have "split_ws (join '' '' (w # ws)) = w # split_ws (CHR '' '' # join '' '' ws)"
      unfolding j by (rule split_ws_word_append [OF w]) (simp add: space_facts)
    also have "split_ws (CHR '' '' # join '' '' ws) = split_ws (join '' '' ws)"
      by (rule split_ws_space) (rule space_facts)
    also have "\<dots> = ws" by (rule Cons.IH [OF ws])
    finally show ?thesis .
  qed
qed

lemma refined_word_wordlike: "refined_word w \<Longrightarrow> wordlike w"
  by (simp add: refined_word_def wordlike_def refined_char_def)

lemma set_strip: "set (strip s) \<subseteq> set s"
proof -
  have "set (strip s) = set (dropWhile isspace (rev (dropWhile isspace s)))"
    by (simp add: strip_def rstrip_def lstrip_def)
  also have "\<dots> \<subseteq> set (rev (dropWhile isspace s))" by (rule set_dropWhile_subset)
  also have "\<dots> = set (dropWhile isspace s)" by simp
  also have "\<dots> \<subseteq> set s" by (rule set_dropWhile_subset)
  finally show ?thesis .
qed

lemma set_sub_whitespace: "set (sub_whitespace s) \<subseteq> insert CHR '' '' (set s)"
proof (induction s rule: sub_whitespace.induct)
  case 1
  show ?case by simp
next
  case (2 c cs)
  show ?case
  proof (cases "isspace c")
    case True
    have "set (dropWhile isspace cs) \<subseteq> set cs" by (rule set_dropWhile_subset)
    with 2(1) [OF True] True show ?thesis by auto
  next
    case False
    with 2(2) [OF False] show ?thesis by auto
  qed
qed

lemma sub_special_char:
  "c \<in> set (sub_special s) \<Longrightarrow> \<not> isspace c \<Longrightarrow> c \<in> set s \<and> (isword c \<or> c = CHR ''-'')"
  by (auto simp: sub_special_def space_facts split: if_splits)

lemma lower_char_set: "c \<in> set (lower s) \<Longrightarrow> \<not> isupper c"
  by (auto simp: lower_def lower_char_not_upper)

lemma query_words_refined: "w \<in> set (query_words q) \<Longrightarrow> refined_word w"
proof -
  assume w: "w \<in> set (query_words q)"
  let ?v = "sub_whitespace (strip (lower q))"
  from w have wl: "wordlike w" and sub: "set w \<subseteq> set (sub_special ?v)"
    using split_ws_wordlike [of w "sub_special ?v"] by (simp_all add: query_words_def)
  have "refined_char c" if c: "c \<in> set w" for c
  proof -
    from wl c have ns: "\<not> isspace c" by (simp add: wordlike_def)
    from sub c have "c \<in> set (sub_special ?v)" by blast
    with ns have cv: "c \<in> set ?v" and ok: "isword c \<or> c = CHR ''-''"
      using sub_special_char by blast+
    from cv set_sub_whitespace have "c = CHR '' '' \<or> c \<in> set (strip (lower q))" by blast
    with ns have "c \<in> set (strip (lower q))" by (auto simp: space_facts)
    with set_strip have "c \<in> set (lower q)" by blast
    then have "\<not> isupper c" by (rule lower_char_set)
    with ns ok show ?thesis by (simp add: refined_char_def)
  qed
  with wl show ?thesis by (simp add: refined_word_def wordlike_def)
qed

lemma set_remove_stop_words: "set (remove_stop_words ws) \<subseteq> set ws"
  by (auto simp: remove_stop_words_def)

lemma research_refined: "refined_word ''research''"
  by (simp add: refined_word_def refined_char_def isupper_def isspace_def isword_def
      isalnum_def ord_def)

lemma kept_refined: "w \<in> set (remove_stop_words (query_words q)) \<Longrightarrow> refined_word w"
  using set_remove_stop_words query_words_refined by blast

lemma contains_append: "contains k (s @ k)"
  by (induction s) (auto, cases k, auto)

lemma consecutive_whitespace_nth:
  "consecutive_whitespace s =
     (\<exists>i. Suc i < length s \<and> isspace (s ! i) \<and> isspace (s ! Suc i))"
proof (induction s rule: consecutive_whitespace.induct)
  case (1 c d s)
  have "(\<exists>i. Suc i < length (c # d # s) \<and> isspace ((c # d # s) ! i)
            \<and> isspace ((c # d # s) ! Suc i)) =
        ((isspace c \<and> isspace d) \<or>
         (\<exists>j. Suc j < length (d # s) \<and> isspace ((d # s) ! j) \<and> isspace ((d # s) ! Suc j)))"
    (is "?L = ?R")
  proof
    assume ?L
    then obtain i where i: "Suc i < length (c # d # s)" "isspace ((c # d # s) ! i)"
      "isspace ((c # d # s) ! Suc i)" by blast
    show ?R
    proof (cases i)
      case 0
      with i show ?thesis by simp
    next
      case (Suc j)
      with i have "Suc j < length (d # s) \<and> isspace ((d # s) ! j) \<and> isspace ((d # s) ! Suc j)"
        by simp
      then show ?thesis by blast
    qed
  next
    assume ?R
    then show ?L
    proof
      assume "isspace c \<and> isspace d"
      then have "Suc 0 < length (c # d # s) \<and> isspace ((c # d # s) ! 0)
          \<and> isspace ((c # d # s) ! Suc 0)" by simp
      then show ?L by blast
    next
      assume "\<exists>j. Suc j < length (d # s) \<and> isspace ((d # s) ! j) \<and> isspace ((d # s) ! Suc j)"
      then obtain j where "Suc j < length (d # s)" "isspace ((d # s) ! j)"
        "isspace ((d # s) ! Suc j)" by blast
      then have "Suc (Suc j) < length (c # d # s) \<and> isspace ((c # d # s) ! Suc j)
          \<and> isspace ((c # d # s) ! Suc (Suc j))" by simp
      then show ?L by blast
    qed
  qed
  with 1 show ?case by simp
qed simp_all

lemma cw_nonspace: "\<not> isspace c \<Longrightarrow> consecutive_whitespace (c # s) = consecutive_whitespace s"
  by (cases s) simp_all

lemma cw_word_append:
  "\<forall>c \<in> set w. \<not> isspace c \<Longrightarrow> consecutive_whitespace (w @ s) = consecutive_whitespace s"
  by (induction w) (simp_all add: cw_nonspace)

lemma join_starts:
  "w \<noteq> [] \<Longrightarrow> \<exists>t. join sep (w # ws) = hd w # t"
  by (cases w; cases ws) simp_all

lemma cw_join: "\<forall>w \<in> set ws. wordlike w \<Longrightarrow> \<not> consecutive_whitespace (join '' '' ws)"
proof (induction ws)
  case Nil
  show ?case by simp
next
  case (Cons w ws)
  from Cons.prems have w: "\<forall>c \<in> set w. \<not> isspace c" by (simp add: wordlike_def)
  from Cons.prems have ws: "\<forall>w \<in> set ws. wordlike w" by simp
  show ?case
  proof (cases ws)
    case Nil
    with cw_word_append [OF w, of "[]"] show ?thesis by simp
  next
    case (Cons v vs)
    with ws have v: "v \<noteq> []" "\<not> isspace (hd v)" by (auto simp: wordlike_def)
    then obtain t where t: "join '' '' ws = hd v # t"
      using join_starts [of v "'' ''" vs] Cons by auto
    have "consecutive_whitespace (join '' '' (w # ws))
        = consecutive_whitespace (CHR '' '' # join '' '' ws)"
      using cw_word_append [OF w, of "CHR '' '' # join '' '' ws"] Cons by simp
    also have "\<dots> = consecutive_whitespace (join '' '' ws)"
      using v(2) by (simp add: t)
    finally show ?thesis using Cons.IH [OF ws] by simp
  qed
qed

lemma set_join: "set (join sep ws) \<subseteq> set sep \<union> \<Union> (set ` set ws)"
  by (induction sep ws rule: join.induct) auto

lemma enhance_join:
  "\<forall>w \<in> set ws. wordlike w \<Longrightarrow>
   enhance_academic_context (join '' '' ws) =
     (if \<not> list_ex (\<lambda>keyword. contains keyword (join '' '' ws)) academic_keywords
         \<and> length ws < 8
      then join '' '' ws @ '' research'' else join '' '' ws)"
  by (simp add: enhance_academic_context_def split_ws_join Let_def)

lemma kept_wordlike: "\<forall>w \<in> set (remove_stop_words (query_words q)). wordlike w"
  using kept_refined refined_word_wordlike by blast

lemma refine_join:
  assumes "remove_stop_words (query_words q) \<noteq> []"
  shows "refine q = join '' '' (result_words q)"
proof -
  let ?kept = "remove_stop_words (query_words q)"
  have "join '' '' (?kept @ [''research'']) = join '' '' ?kept @ '' research''"
    using join_snoc [OF assms, of "'' ''" "''research''"] by simp
  then show ?thesis
    by (simp add: refine_def enhance_join [OF kept_wordlike] result_words_def Let_def)
qed

lemma refine_no_words:
  "remove_stop_words (query_words q) = [] \<Longrightarrow> refine q = '' research''"
  by (simp add: refine_def enhance_academic_context_def split_ws_Nil academic_keywords_def)

lemma result_words_refined: "w \<in> set (result_words q) \<Longrightarrow> refined_word w"
  using kept_refined [of _ q] research_refined
  by (auto simp: result_words_def Let_def split: if_splits)

lemma result_words_nonempty:
  "remove_stop_words (query_words q) \<noteq> [] \<Longrightarrow> result_words q \<noteq> []"
  by (simp add: result_words_def Let_def)

section \<open>Properties of the response extractor\<close>

text \<open>
  C1. For every raw gap response, the extractor returns the lines whose trimmed form is
  non-empty and begins with a digit, each trimmed, in their order; when there is no such
  line it returns the one-element list of the whole response, untrimmed; the result is
  never empty. The lines are the pieces between line feeds (\<open>join_split_on\<close>,
  \<open>split_on_no_sep\<close>); a digit is what \<open>str.isdigit\<close> accepts.
\<close>

theorem parse_gaps_digit_led_lines:
  "parse_gaps response =
     (if \<exists>l \<in> set (split_on newline response). digit_led l
      then map strip (filter digit_led (split_on newline response))
      else [response])
   \<and> parse_gaps response \<noteq> []"
  unfolding parse_gaps_def digit_led_eq Let_def
  by (auto simp: filter_empty_conv)

theorem parse_gaps_digit_led_lines_witness:
  "parse_gaps ''1. a \<newline>Note'' = [''1. a''] \<and> parse_gaps ''Note'' = [''Note'']"
  using parse_gaps_digit_led_lines [of "''1. a \<newline>Note''"]
    parse_gaps_digit_led_lines [of "''Note''"]
  by (simp add: digit_led_iff gap_line_def strip_def lstrip_def rstrip_def isspace_def
      isdigit_def newline_def ord_def)

section \<open>Properties of the prompt builder\<close>

text \<open>
  C3, as the source has it. The claim reads: for an education level outside
  \<open>high_school\<close>, \<open>undergraduate\<close>, \<open>graduate\<close>, \<open>phd\<close>, \<open>general\<close> the audience phrase
  is the one of \<open>undergraduate\<close>, "an undergraduate student with foundational
  knowledge". The default of the lookup is the shorter phrase "an undergraduate
  student": the level \<open>kindergarten\<close> gets it, and it is not the phrase of the table.
\<close>

theorem audience_unrecognized_counterexample:
  "''kindergarten'' \<notin> {''high_school'', ''undergraduate'', ''graduate'', ''phd'', ''general''}
   \<and> audience_of ''kindergarten'' \<noteq> ''an undergraduate student with foundational knowledge''
   \<and> audience_of ''undergraduate'' = ''an undergraduate student with foundational knowledge''"
  by (simp add: audience_of_def level_descriptions_def)

text \<open>
  C3, amended. For every education level outside the recognized set the audience phrase
  is "an undergraduate student", and the prompt is the template with that phrase in
  both places.
\<close>

theorem audience_unrecognized:
  "education_level \<notin> {''high_school'', ''undergraduate'', ''graduate'', ''phd'', ''general''}
   \<Longrightarrow> audience_of education_level = ''an undergraduate student''
     \<and> get_simplified_explanation_prompt query summary education_level =
         explanation_template query summary ''an undergraduate student''"
  by (simp add: audience_of_def level_descriptions_def get_simplified_explanation_prompt_def)

theorem audience_unrecognized_witness:
  "audience_of ''kindergarten'' = ''an undergraduate student''
   \<and> get_simplified_explanation_prompt ''q'' ''s'' ''kindergarten'' =
         explanation_template ''q'' ''s'' ''an undergraduate student''"
  using audience_unrecognized [of "''kindergarten''" "''q''" "''s''"] by simp

section \<open>Properties of the model gateway\<close>

text \<open>
  C6. When the provider tag is one of the two supported ones and there is no client,
  \<open>_call_llm\<close> fails with the \<open>RuntimeError\<close> "client not initialized" of that provider
  (the specification's \<open>BackendUnavailable\<close>); when the tag is neither, it fails with
  the \<open>ValueError\<close> "Unsupported LLM provider" (its \<open>UnsupportedProvider\<close>). No backend
  call is made: the state of the world is unchanged.
\<close>

theorem call_llm_failures:
  "(provider self = ''gemini'' \<and> client self = None \<longrightarrow>
      call_llm self prompt w = (Inl (RuntimeError ''Gemini client not initialized''), w))
   \<and> (provider self = ''openai'' \<and> client self = None \<longrightarrow>
      call_llm self prompt w = (Inl (RuntimeError ''OpenAI client not initialized''), w))
   \<and> (provider self \<noteq> ''gemini'' \<and> provider self \<noteq> ''openai'' \<longrightarrow>
      call_llm self prompt w =
        (Inl (ValueError (''Unsupported LLM provider: '' @ provider self)), w))"
  by (simp add: call_llm_def call_gemini_def call_openai_def)

theorem call_llm_failures_witness:
  "call_llm (init_processor ''gemini'' (\<lambda>tag. None)) ''p'' (0::nat) =
     (Inl (RuntimeError ''Gemini client not initialized''), 0)
   \<and> call_llm (init_processor ''openai'' (\<lambda>tag. None)) ''p'' (0::nat) =
     (Inl (RuntimeError ''OpenAI client not initialized''), 0)
   \<and> call_llm (init_processor ''claude'' (\<lambda>tag. Some (\<lambda>p n. (Inr p, Suc n)))) ''p'' (0::nat) =
     (Inl (ValueError ''Unsupported LLM provider: claude''), 0)"
  using call_llm_failures [of "init_processor ''gemini'' (\<lambda>tag. None)" "''p''" "0::nat"]
    call_llm_failures [of "init_processor ''openai'' (\<lambda>tag. None)" "''p''" "0::nat"]
    call_llm_failures
      [of "init_processor ''claude'' (\<lambda>tag. Some (\<lambda>p n. (Inr p, Suc n)))" "''p''" "0::nat"]
  by (simp add: init_processor_def)

section \<open>Properties of the output formatter\<close>

lemma format_analysis_eq:
  "format_analysis now r =
     (if is_list (dict_get r ''research_gaps'' (PyList [])) then Inr (formatted_of now r)
      else Inl (ValueError ''research_gaps must be a list''))"
  by (simp add: format_analysis_def validate_output_def formatted_of_def required_fields_def
      has_key_def Let_def)




section \<open>Properties of the analysis orchestrator\<close>

lemma call_gemini_with: "call_llm (gemini_with generate) prompt n = generate prompt n"
  by (simp add: call_llm_def call_gemini_def gemini_with_def)

lemma format_no_papers: "format_papers [] = Inr []"
  by (simp add: format_papers_def)

text \<open>
  C5, as the source has it. The claim reads: when a gateway call fails, the analysis
  fails with \<open>AnalysisFailed\<close> wrapping the underlying cause. The handler of
  \<open>analyze_papers\<close> logs and ends with a bare \<open>raise\<close>, and the source has no exception
  class of its own: with no client, the analysis fails with the very \<open>RuntimeError\<close>
  that \<open>_call_llm\<close> raised, not with an exception that wraps it.
\<close>

theorem analyze_papers_unwrapped_counterexample:
  "call_llm (init_processor ''gemini'' (\<lambda>tag. None)) (get_summary_prompt ''q'' []) (0::nat) =
     (Inl (RuntimeError ''Gemini client not initialized''), 0)
   \<and> analyze_papers (init_processor ''gemini'' (\<lambda>tag. None)) ''q'' [] ''phd'' (0::nat) =
     (Inl (RuntimeError ''Gemini client not initialized''), 0)"
  by (simp add: analyze_papers_def format_no_papers generate_summary_def call_llm_def
      call_gemini_def init_processor_def)

text \<open>
  C5, amended. When the summary call, the gaps call or the explanation call of
  \<open>analyze_papers\<close> fails, the analysis fails with the exception of that call itself,
  raised again unchanged; and a record is returned only when the three calls succeeded,
  and then it holds the summary, the gaps, the explanation and the level: there is no
  partial record.
\<close>

theorem analyze_papers_no_partial:
  "format_papers papers = Inr papers_text \<Longrightarrow>
   (call_llm self (get_summary_prompt query papers_text) w = (Inl e, w1) \<longrightarrow>
      analyze_papers self query papers education_level w = (Inl e, w1))
   \<and> (call_llm self (get_summary_prompt query papers_text) w = (Inr summary, w1)
        \<and> call_llm self (get_gaps_prompt query papers_text) w1 = (Inl e, w2) \<longrightarrow>
      analyze_papers self query papers education_level w = (Inl e, w2))
   \<and> (call_llm self (get_summary_prompt query papers_text) w = (Inr summary, w1)
        \<and> call_llm self (get_gaps_prompt query papers_text) w1 = (Inr gaps, w2)
        \<and> call_llm self (get_simplified_explanation_prompt query summary education_level) w2 =
            (Inl e, w3) \<longrightarrow>
      analyze_papers self query papers education_level w = (Inl e, w3))
   \<and> (analyze_papers self query papers education_level w = (Inr r, w') \<longrightarrow>
      (\<exists>s u1 g u2 x.
         call_llm self (get_summary_prompt query papers_text) w = (Inr s, u1)
         \<and> call_llm self (get_gaps_prompt query papers_text) u1 = (Inr g, u2)
         \<and> call_llm self (get_simplified_explanation_prompt query s education_level) u2 =
             (Inr x, w')
         \<and> r = analysis_record s (parse_gaps g) x education_level))"
  by (auto simp: analyze_papers_def generate_summary_def extract_research_gaps_def
      generate_simplified_explanation_def split: sum.splits prod.splits)

theorem analyze_papers_no_partial_witness:
  "analyze_papers (gemini_with (failing_at 0)) ''q'' [] ''phd'' 0 =
     (Inl (BackendError ''timeout''), 1)
   \<and> analyze_papers (gemini_with (failing_at 1)) ''q'' [] ''phd'' 0 =
     (Inl (BackendError ''timeout''), 2)
   \<and> analyze_papers (gemini_with (failing_at 2)) ''q'' [] ''phd'' 0 =
     (Inl (BackendError ''timeout''), 3)"
  using analyze_papers_no_partial [OF format_no_papers, of "gemini_with (failing_at 0)"
        "''q''" 0 "BackendError ''timeout''" 1 "''phd''" "''1. gap''" 2 "''1. gap''" 3 "[]" 3]
    analyze_papers_no_partial [OF format_no_papers, of "gemini_with (failing_at 1)"
        "''q''" 0 "BackendError ''timeout''" 1 "''phd''" "''1. gap''" 2 "''1. gap''" 3 "[]" 3]
    analyze_papers_no_partial [OF format_no_papers, of "gemini_with (failing_at 2)"
        "''q''" 0 "BackendError ''timeout''" 1 "''phd''" "''1. gap''" 2 "''1. gap''" 3 "[]" 3]
  by (simp add: call_gemini_with failing_at_def)

lemma analyze_papers_run:
  "analyze_papers (gemini_with (failing_at 7)) ''q'' [] ''kindergarten'' 0 =
     (Inr (analysis_record ''1. gap'' [''1. gap''] ''1. gap'' ''kindergarten''), 3)"
proof -
  have "parse_gaps ''1. gap'' = [''1. gap'']"
    by (simp add: parse_gaps_def gap_line_def strip_def lstrip_def rstrip_def isspace_def
        isdigit_def newline_def ord_def)
  then show ?thesis
    by (simp add: analyze_papers_def format_no_papers generate_summary_def
        extract_research_gaps_def generate_simplified_explanation_def call_gemini_with
        failing_at_def)
qed

text \<open>
  C10. When \<open>analyze_papers\<close> returns a record, its \<open>education_level\<close> is the string
  that was passed in, whatever the string (the recognized levels are only looked up to
  choose the audience phrase of the prompt); and the formatter keeps that entry.
\<close>

theorem analyze_papers_education_level:
  "analyze_papers self query papers education_level w = (Inr r, w') \<Longrightarrow>
     map_of r ''education_level'' = Some (PyStr education_level)
     \<and> (\<forall>formatted. format_analysis now r = Inr formatted \<longrightarrow>
          map_of formatted ''education_level'' = Some (PyStr education_level))"
  by (auto simp: analyze_papers_def analysis_record_def format_analysis_def formatted_of_def
      dict_get_def Let_def split: sum.splits prod.splits)

theorem analyze_papers_education_level_witness:
  "map_of (analysis_record ''1. gap'' [''1. gap''] ''1. gap'' ''kindergarten'') ''education_level'' =
     Some (PyStr ''kindergarten'')
   \<and> map_of (formatted_of ''t''
        (analysis_record ''1. gap'' [''1. gap''] ''1. gap'' ''kindergarten'')) ''education_level'' =
     Some (PyStr ''kindergarten'')"
proof -
  let ?r = "analysis_record ''1. gap'' [''1. gap''] ''1. gap'' ''kindergarten''"
  have f: "format_analysis ''t'' ?r = Inr (formatted_of ''t'' ?r)"
    by (simp add: format_analysis_eq analysis_record_def dict_get_def is_list_def)
  from analyze_papers_education_level [OF analyze_papers_run, of "''t''"] f
  show ?thesis by blast
qed

section \<open>Properties of the paper rendering\<close>

lemma year_text_of_model:
  "year_text (dict_of_paper p) = (case year p of None \<Rightarrow> ''None'' | Some y \<Rightarrow> str_int y)"
  by (simp add: year_text_def dict_of_paper_def)

lemma format_entries_numbered:
  "format_entries i ps = Inr es \<Longrightarrow>
   length es = length ps
   \<and> (\<forall>k < length ps. format_entry (i + k) (as_dict (ps ! k)) = Inr (es ! k))"
proof (induction ps arbitrary: i es)
  case Nil
  then show ?case by simp
next
  case (Cons p ps)
  from Cons.prems obtain entry formatted
    where entry: "format_entry i (as_dict p) = Inr entry"
      and rest: "format_entries (Suc i) ps = Inr formatted"
      and es: "es = entry # formatted"
    by (auto split: sum.splits)
  from Cons.IH [OF rest] have len: "length formatted = length ps"
    and nth: "\<forall>k < length ps. format_entry (Suc i + k) (as_dict (ps ! k)) = Inr (formatted ! k)"
    by simp_all
  have "format_entry (i + k) (as_dict ((p # ps) ! k)) = Inr (es ! k)" if "k < length (p # ps)" for k
  proof (cases k)
    case 0
    with entry es show ?thesis by simp
  next
    case (Suc j)
    with that nth es show ?thesis by simp
  qed
  with len es show ?case by simp
qed

text \<open>
  C8 at a paper of the request model whose year is absent: \<open>paper.dict()\<close> has the key
  \<open>year\<close> with the value \<open>None\<close>, so \<open>get('year', 'N/A')\<close> does not take its default
  and the entry reads \<open>Year: None\<close>; for a plain dictionary without the key it reads
  \<open>Year: N/A\<close>. A paper whose \<open>authors\<close> is \<open>None\<close> is not rendered at all.
\<close>

theorem format_papers_year_absent:
  "format_papers [Model \<lparr>title = ''T'', abstract = ''A'', authors = Some [], year = None,
      url = None\<rparr>] =
     Inr ''Paper 1:\<newline>Title: T\<newline>Abstract: A\<newline>Authors: \<newline>Year: None\<newline>''
   \<and> format_papers [Plain \<lparr>title_entry = Some ''T'', abstract_entry = Some ''A'',
      authors_entry = None, year_entry = None\<rparr>] =
     Inr ''Paper 1:\<newline>Title: T\<newline>Abstract: A\<newline>Authors: \<newline>Year: N/A\<newline>''
   \<and> format_papers [Model \<lparr>title = ''T'', abstract = ''A'', authors = None, year = Some 2020,
      url = None\<rparr>] = Inl (TypeError ''can only join an iterable'')"
  by code_simp

section \<open>Properties of the query refiner\<close>

lemma no_words_facts:
  "\<forall>c \<in> set '' research''. \<not> isupper c"
  "\<not> consecutive_whitespace '' research''"
  "\<forall>c \<in> set '' research''. isword c \<or> c = CHR '' '' \<or> c = CHR ''-''"
  by (simp_all add: isupper_def isspace_def isword_def isalnum_def ord_def)

lemma join_refined_chars:
  assumes "\<forall>w \<in> set ws. refined_word w" "c \<in> set (join '' '' ws)"
  shows "c = CHR '' '' \<or> refined_char c"
proof -
  from assms(2) set_join [of "'' ''" ws] have "c \<in> set '' '' \<union> \<Union> (set ` set ws)"
    by (rule rev_subsetD)
  then have "c = CHR '' '' \<or> (\<exists>w \<in> set ws. c \<in> set w)" by simp
  with assms(1) show ?thesis by (auto simp only: refined_word_def)
qed

text \<open>
  C7, as the source has it. The claim reads: the result of \<open>refine\<close> holds only
  characters that are alphanumeric, whitespace or the hyphen. The pattern
  \<open>[^\w\s\-]\<close> keeps every word character, and the underscore is one: it stays in the
  result of \<open>a_b\<close>, and it is not alphanumeric, not whitespace and not the hyphen.
\<close>

theorem refine_underscore_counterexample:
  "CHR ''_'' \<in> set (refine ''a_b'') \<and> \<not> isalnum CHR ''_'' \<and> \<not> isspace CHR ''_''
   \<and> CHR ''_'' \<noteq> CHR ''-''"
proof -
  have "refine ''a_b'' = ''a_b research''" by code_simp
  then show ?thesis by (simp add: isalnum_def isspace_def ord_def)
qed

lemma refine_chars:
  assumes "c \<in> set (refine q)"
  shows "c = CHR '' '' \<or> refined_char c"
proof (cases "remove_stop_words (query_words q) = []")
  case True
  with assms have c: "c \<in> set '' research''" by (simp only: refine_no_words)
  have "\<forall>c \<in> set '' research''. c = CHR '' '' \<or> refined_char c"
    by (simp add: refined_char_def isupper_def isspace_def isword_def isalnum_def ord_def)
  then show ?thesis using c by (rule bspec)
next
  case False
  have rw: "\<forall>w \<in> set (result_words q). refined_word w"
    by (rule ballI) (rule result_words_refined)
  from assms have "c \<in> set (join '' '' (result_words q))"
    by (simp only: refine_join [OF False])
  with rw show ?thesis by (rule join_refined_chars)
qed

lemma refine_no_consecutive_whitespace: "\<not> consecutive_whitespace (refine q)"
proof (cases "remove_stop_words (query_words q) = []")
  case True
  show ?thesis unfolding refine_no_words [OF True] by (rule no_words_facts(2))
next
  case False
  have "\<forall>w \<in> set (result_words q). wordlike w"
    by (rule ballI) (rule refined_word_wordlike, rule result_words_refined)
  then show ?thesis unfolding refine_join [OF False] by (rule cw_join)
qed

text \<open>
  C7, amended. For every query, the result of \<open>refine\<close> is lowercase (\<open>lower\<close> leaves
  it unchanged and it has no uppercase character), has no two consecutive whitespace
  characters, and holds only word characters (alphanumeric or the underscore), spaces
  and hyphens.
\<close>

theorem refine_normal_form:
  "lower (refine q) = refine q
   \<and> (\<forall>c \<in> set (refine q). \<not> isupper c)
   \<and> \<not> (\<exists>i. Suc i < length (refine q) \<and> isspace (refine q ! i) \<and> isspace (refine q ! Suc i))
   \<and> (\<forall>c \<in> set (refine q). isword c \<or> c = CHR '' '' \<or> c = CHR ''-'')"
proof -
  have up: "\<forall>c \<in> set (refine q). \<not> isupper c"
  proof
    fix c assume "c \<in> set (refine q)"
    then have "c = CHR '' '' \<or> refined_char c" by (rule refine_chars)
    then show "\<not> isupper c"
    proof
      assume "c = CHR '' ''" then show ?thesis by (simp add: space_facts)
    next
      assume "refined_char c" then show ?thesis by (simp add: refined_char_def)
    qed
  qed
  have ch: "\<forall>c \<in> set (refine q). isword c \<or> c = CHR '' '' \<or> c = CHR ''-''"
  proof
    fix c assume "c \<in> set (refine q)"
    then have "c = CHR '' '' \<or> refined_char c" by (rule refine_chars)
    then show "isword c \<or> c = CHR '' '' \<or> c = CHR ''-''"
    proof
      assume "c = CHR '' ''" then show ?thesis by simp
    next
      assume "refined_char c"
      then have "isword c \<or> c = CHR ''-''" by (simp add: refined_char_def)
      then show ?thesis by blast
    qed
  qed
  from up have "lower (refine q) = refine q" by (rule lower_fixed)
  moreover note up
  moreover have "\<not> (\<exists>i. Suc i < length (refine q) \<and> isspace (refine q ! i)
      \<and> isspace (refine q ! Suc i))"
    using refine_no_consecutive_whitespace [of q] unfolding consecutive_whitespace_nth .
  moreover note ch
  ultimately show ?thesis by (intro conjI)
qed

theorem refine_normal_form_witness:
  "refine ''Deep_Learning:  A  Study!'' = ''deep_learning a study''
   \<and> lower ''deep_learning a study'' = ''deep_learning a study''
   \<and> isword CHR ''_''"
proof (intro conjI)
  show r: "refine ''Deep_Learning:  A  Study!'' = ''deep_learning a study''" by code_simp
  show "lower ''deep_learning a study'' = ''deep_learning a study''"
    using refine_normal_form [of "''Deep_Learning:  A  Study!''", THEN conjunct1]
    unfolding r .
  show "isword CHR ''_''" by (simp add: isword_def)
qed

text \<open>
  C9. When the query has at most 5 words after lowercasing, the two substitutions and
  the split, the filter keeps every word; when it has more than 5, a stop word of more
  than 3 characters is kept. The words of the result of \<open>refine\<close> are the kept words,
  followed by \<open>research\<close> when the academic hint was added.
\<close>

theorem stop_word_filter:
  "(length (query_words q) \<le> 5 \<longrightarrow> remove_stop_words (query_words q) = query_words q)
   \<and> (5 < length (query_words q) \<and> w \<in> set (query_words q) \<and> w \<in> set stop_words
        \<and> 3 < length w \<longrightarrow> w \<in> set (remove_stop_words (query_words q)))
   \<and> (split_ws (refine q) = remove_stop_words (query_words q)
        \<or> split_ws (refine q) = remove_stop_words (query_words q) @ [''research''])"
proof -
  have "split_ws (refine q) = remove_stop_words (query_words q)
        \<or> split_ws (refine q) = remove_stop_words (query_words q) @ [''research'']"
  proof (cases "remove_stop_words (query_words q) = []")
    case True
    have "split_ws '' research'' = [''research'']" by code_simp
    with True show ?thesis by (simp add: refine_no_words)
  next
    case False
    have "\<forall>w \<in> set (result_words q). wordlike w"
      using result_words_refined refined_word_wordlike by blast
    then have "split_ws (refine q) = result_words q"
      unfolding refine_join [OF False] by (rule split_ws_join)
    then show ?thesis by (auto simp: result_words_def Let_def)
  qed
  then show ?thesis by (auto simp: remove_stop_words_def)
qed

theorem stop_word_filter_witness:
  "query_words ''What is THE impact?'' = [''what'', ''is'', ''the'', ''impact'']
   \<and> remove_stop_words [''what'', ''is'', ''the'', ''impact''] =
       [''what'', ''is'', ''the'', ''impact'']
   \<and> query_words ''where is the cat and the dog'' =
       [''where'', ''is'', ''the'', ''cat'', ''and'', ''the'', ''dog'']
   \<and> ''where'' \<in> set (remove_stop_words
       [''where'', ''is'', ''the'', ''cat'', ''and'', ''the'', ''dog''])"
proof (intro conjI)
  show a: "query_words ''What is THE impact?'' = [''what'', ''is'', ''the'', ''impact'']"
    by code_simp
  show b: "query_words ''where is the cat and the dog'' =
      [''where'', ''is'', ''the'', ''cat'', ''and'', ''the'', ''dog'']" by code_simp
  have "length [''what'', ''is'', ''the'', ''impact''] \<le> 5" by simp
  with stop_word_filter [of "''What is THE impact?''", THEN conjunct1]
  show "remove_stop_words [''what'', ''is'', ''the'', ''impact''] =
      [''what'', ''is'', ''the'', ''impact'']"
    unfolding a by (rule mp)
  have "5 < length [''where'', ''is'', ''the'', ''cat'', ''and'', ''the'', ''dog'']
      \<and> ''where'' \<in> set [''where'', ''is'', ''the'', ''cat'', ''and'', ''the'', ''dog'']
      \<and> ''where'' \<in> set stop_words \<and> 3 < length ''where''"
    by (simp add: stop_words_def)
  with stop_word_filter [of "''where is the cat and the dog''" "''where''",
      THEN conjunct2, THEN conjunct1]
  show "''where'' \<in> set (remove_stop_words
      [''where'', ''is'', ''the'', ''cat'', ''and'', ''the'', ''dog''])"
    unfolding b by (rule mp)
qed

subsection \<open>Refining twice\<close>

lemma strip_fixed:
  assumes "s \<noteq> []" "\<not> isspace (hd s)" "\<not> isspace (last s)"
  shows "strip s = s"
proof -
  from assms(1,2) have l: "dropWhile isspace s = s" by (cases s) simp_all
  from assms(1,3) have "dropWhile isspace (rev s) = rev s"
    by (cases "rev s") (simp_all add: last_rev [symmetric] hd_rev)
  with l show ?thesis by (simp add: strip_def lstrip_def rstrip_def)
qed

lemma join_ends:
  "ws \<noteq> [] \<Longrightarrow> \<forall>w \<in> set ws. wordlike w \<Longrightarrow>
   join '' '' ws \<noteq> [] \<and> \<not> isspace (hd (join '' '' ws)) \<and> \<not> isspace (last (join '' '' ws))"
proof (induction ws)
  case Nil
  then show ?case by simp
next
  case (Cons w ws)
  from Cons.prems have w: "w \<noteq> []" "\<forall>c \<in> set w. \<not> isspace c" by (simp_all add: wordlike_def)
  show ?case
  proof (cases ws)
    case Nil
    with w show ?thesis by simp
  next
    case (Cons v vs)
    with Cons.prems Cons.IH have ih: "join '' '' ws \<noteq> []" "\<not> isspace (last (join '' '' ws))"
      by simp_all
    from Cons have j: "join '' '' (w # ws) = w @ CHR '' '' # join '' '' ws" by simp
    from w ih show ?thesis unfolding j by simp
  qed
qed

lemma sub_whitespace_word_append:
  "\<forall>c \<in> set w. \<not> isspace c \<Longrightarrow> sub_whitespace (w @ s) = w @ sub_whitespace s"
  by (induction w) simp_all

lemma sub_whitespace_join:
  "\<forall>w \<in> set ws. wordlike w \<Longrightarrow> sub_whitespace (join '' '' ws) = join '' '' ws"
proof (induction ws)
  case Nil
  show ?case by simp
next
  case (Cons w ws)
  from Cons.prems have w: "\<forall>c \<in> set w. \<not> isspace c" by (simp add: wordlike_def)
  from Cons.prems have ws: "\<forall>w \<in> set ws. wordlike w" by simp
  show ?case
  proof (cases ws)
    case Nil
    with sub_whitespace_word_append [OF w, of "[]"] show ?thesis by simp
  next
    case (Cons v vs)
    with ws have v: "v \<noteq> []" "\<not> isspace (hd v)" by (auto simp: wordlike_def)
    then obtain t where t: "join '' '' ws = hd v # t"
      using join_starts [of v "'' ''" vs] Cons by auto
    from Cons have j: "join '' '' (w # ws) = w @ CHR '' '' # join '' '' ws" by simp
    have "sub_whitespace (CHR '' '' # join '' '' ws) = CHR '' '' # sub_whitespace (join '' '' ws)"
      using v(2) by (simp add: t space_facts)
    then show ?thesis
      unfolding j using sub_whitespace_word_append [OF w] Cons.IH [OF ws] by simp
  qed
qed

lemma sub_special_fixed:
  "\<forall>c \<in> set s. isword c \<or> c = CHR '' '' \<or> c = CHR ''-'' \<Longrightarrow> sub_special s = s"
  by (induction s) (auto simp: sub_special_def)

lemma research_keyword: "list_ex (\<lambda>keyword. contains keyword (x @ '' research'')) academic_keywords"
proof -
  have "contains ''research'' ((x @ '' '') @ ''research'')" by (rule contains_append)
  then show ?thesis by (simp add: academic_keywords_def)
qed

lemma enhance_idem:
  "enhance_academic_context (enhance_academic_context x) = enhance_academic_context x"
proof (cases "enhance_academic_context x = x")
  case True
  then show ?thesis by simp
next
  case False
  then have "enhance_academic_context x = x @ '' research''"
    by (simp add: enhance_academic_context_def Let_def split: if_splits)
  then show ?thesis
    using research_keyword [of x] by (simp add: enhance_academic_context_def)
qed

lemma refine_upper_free: "c \<in> set (refine q) \<Longrightarrow> \<not> isupper c"
  using refine_chars [of c q] by (auto simp: space_facts refined_char_def)

lemma refine_allowed: "c \<in> set (refine q) \<Longrightarrow> isword c \<or> c = CHR '' '' \<or> c = CHR ''-''"
  using refine_chars [of c q] by (auto simp: refined_char_def)

lemma refine_words_again:
  assumes "refine q \<noteq> '' research''"
  shows "query_words (refine q) = result_words q \<and> join '' '' (result_words q) = refine q"
proof -
  from assms have kept: "remove_stop_words (query_words q) \<noteq> []"
    using refine_no_words [of q] by blast
  have r: "refine q = join '' '' (result_words q)" by (rule refine_join [OF kept])
  have ne: "result_words q \<noteq> []" by (rule result_words_nonempty [OF kept])
  have wl: "\<forall>w \<in> set (result_words q). wordlike w"
    by (rule ballI) (rule refined_word_wordlike, rule result_words_refined)
  have "lower (refine q) = refine q"
    by (rule lower_fixed) (rule ballI, rule refine_upper_free)
  moreover have "strip (refine q) = refine q"
    unfolding r using join_ends [OF ne wl] by (intro strip_fixed) simp_all
  moreover have "sub_whitespace (refine q) = refine q"
    unfolding r by (rule sub_whitespace_join [OF wl])
  moreover have "sub_special (refine q) = refine q"
    by (rule sub_special_fixed) (rule ballI, rule refine_allowed)
  moreover have "split_ws (refine q) = result_words q"
    unfolding r by (rule split_ws_join [OF wl])
  ultimately show ?thesis using r by (simp add: query_words_def)
qed

text \<open>
  C2, as the source has it. The claim reads: \<open>refine (refine q) = refine q\<close> for every
  query. The query \<open>a b c d e\<close> has 5 words, so no stop word is removed, and the
  academic hint makes the result 6 words long; refined again, the stop word \<open>a\<close> is
  removed. A query without any word character gives the hint after a space, and the
  second pass strips that space.
\<close>

theorem refine_not_idempotent_counterexample:
  "refine (refine ''a b c d e'') \<noteq> refine ''a b c d e''
   \<and> refine (refine ''?'') \<noteq> refine ''?''"
proof -
  have "refine ''a b c d e'' = ''a b c d e research''" by code_simp
  moreover have "refine ''a b c d e research'' = ''b c d e research''" by code_simp
  moreover have "refine ''?'' = '' research''" by code_simp
  moreover have "refine '' research'' = ''research''" by code_simp
  ultimately show ?thesis by simp
qed

text \<open>
  C2, amended. For every query whose result is not the bare hint \<open>" research"\<close> (some
  word of the query is kept) and whose result has at most 5 words or no stop word of at
  most 3 characters among its words, refining the result again returns it unchanged.
\<close>

theorem refine_idempotent:
  assumes "refine q \<noteq> '' research''"
    and "length (split_ws (refine q)) \<le> 5
         \<or> (\<forall>w \<in> set (split_ws (refine q)). w \<notin> set stop_words \<or> 3 < length w)"
  shows "refine (refine q) = refine q"
proof -
  from refine_words_again [OF assms(1)]
  have qw: "query_words (refine q) = result_words q"
    and j: "join '' '' (result_words q) = refine q" by simp_all
  have wl: "\<forall>w \<in> set (result_words q). wordlike w"
    by (rule ballI) (rule refined_word_wordlike, rule result_words_refined)
  have "split_ws (refine q) = result_words q"
    unfolding j [symmetric] by (rule split_ws_join [OF wl])
  with assms(2) have "remove_stop_words (result_words q) = result_words q"
    by (auto simp: remove_stop_words_def)
  then have "refine (refine q) = enhance_academic_context (refine q)"
    by (simp add: refine_def [of "refine q"] qw j)
  also have "\<dots> = refine q"
    unfolding refine_def [of q] by (rule enhance_idem)
  finally show ?thesis .
qed

theorem refine_idempotent_witness:
  "refine ''What Is Quantum   Computing?'' = ''what is quantum computing research''
   \<and> refine ''what is quantum computing research'' = ''what is quantum computing research''"
proof -
  have r: "refine ''What Is Quantum   Computing?'' = ''what is quantum computing research''"
    by code_simp
  have s: "split_ws ''what is quantum computing research'' =
      [''what'', ''is'', ''quantum'', ''computing'', ''research'']" by code_simp
  have "refine ''What Is Quantum   Computing?'' \<noteq> '' research''" unfolding r by simp
  moreover have "length (split_ws (refine ''What Is Quantum   Computing?'')) \<le> 5
      \<or> (\<forall>w \<in> set (split_ws (refine ''What Is Quantum   Computing?'')).
            w \<notin> set stop_words \<or> 3 < length w)"
    unfolding r s by simp
  ultimately have "refine (refine ''What Is Quantum   Computing?'') =
      refine ''What Is Quantum   Computing?''" by (rule refine_idempotent)
  then show ?thesis unfolding r using r by simp
qed

end
